theory Spec2Isabelle
  imports Main "HOL-Library.Sublist"
begin

section \<open>Data model of the tool dispatch core\<close>

text \<open>
  The embedding follows \<^verbatim>\<open>src/mcp_weather_server/server.py\<close>. The module keeps one
  global dictionary \<^verbatim>\<open>tool_handlers\<close>; the two transport entry points
  \<^verbatim>\<open>list_tools\<close> and \<^verbatim>\<open>call_tool\<close> read it, \<^verbatim>\<open>add_tool_handler\<close> writes it.
  Logging is an external collaborator and is left out.
\<close>

subsection \<open>Python values and exceptions\<close>

text \<open>
  The \<^verbatim>\<open>arguments\<close> parameter of \<^verbatim>\<open>call_tool\<close> is typed \<^verbatim>\<open>Any\<close>. A float is kept as
  mantissa and decimal exponent; it is only carried around. \<open>PMappingProxy\<close> stands
  for a mapping object that is not an instance of \<^verbatim>\<open>dict\<close>.
\<close>

datatype pyval =
    PNone
  | PBool bool
  | PInt int
  | PFloat int int
  | PStr string
  | PList "pyval list"
  | PDict "(string \<times> pyval) list"
  | PMappingProxy "(string \<times> pyval) list"

text \<open>\<^verbatim>\<open>isinstance(arguments, dict)\<close>\<close>

fun isinstance_dict :: "pyval \<Rightarrow> bool" where
  "isinstance_dict (PDict d) = True"
| "isinstance_dict v = False"

text \<open>\<^verbatim>\<open>isinstance(arguments, collections.abc.Mapping)\<close>\<close>

fun isinstance_mapping :: "pyval \<Rightarrow> bool" where
  "isinstance_mapping (PDict d) = True"
| "isinstance_mapping (PMappingProxy d) = True"
| "isinstance_mapping v = False"

text \<open>
  A raised object is given by its class name and by \<^verbatim>\<open>str(e)\<close>. \<open>Exception\<close> is an
  instance of a subclass of \<^verbatim>\<open>Exception\<close>, the ones an \<^verbatim>\<open>except Exception\<close> clause
  catches; \<open>BaseException\<close> is an instance of a class outside it (task cancellation,
  keyboard interrupt, interpreter exit), which that clause lets through.
\<close>

datatype py_exc =
    Exception string string
  | BaseException string string

datatype content =
    TextContent string
  | ImageContent string string
  | EmbeddedResource pyval

subsection \<open>Dictionaries that keep insertion order\<close>

text \<open>
  A Python \<^verbatim>\<open>dict\<close> iterates in insertion order. \<^verbatim>\<open>d[k] = v\<close> replaces the value in
  place when \<open>k\<close> is present and appends the pair otherwise; \<^verbatim>\<open>d.get(k)\<close> is
  \<^verbatim>\<open>None\<close> for a missing key.
\<close>

fun dict_set :: "'k \<Rightarrow> 'v \<Rightarrow> ('k \<times> 'v) list \<Rightarrow> ('k \<times> 'v) list" where
  "dict_set k v [] = [(k, v)]"
| "dict_set k v ((k', v') # d) =
     (if k' = k then (k', v) # d else (k', v') # dict_set k v d)"

fun dict_get :: "('k \<times> 'v) list \<Rightarrow> 'k \<Rightarrow> 'v option" where
  "dict_get [] k = None"
| "dict_get ((k', v') # d) k = (if k' = k then Some v' else dict_get d k)"

definition dict_keys :: "('k \<times> 'v) list \<Rightarrow> 'k list" where
  "dict_keys d = map fst d"

definition dict_values :: "('k \<times> 'v) list \<Rightarrow> 'v list" where
  "dict_values d = map snd d"

subsection \<open>Tools and handlers\<close>

text \<open>\<^verbatim>\<open>mcp.types.Tool\<close>: name, description and input schema.\<close>

record tool =
  tool_name :: string
  tool_description :: string
  inputSchema :: pyval

text \<open>
  A \<^verbatim>\<open>ToolHandler\<close> instance, as far as the server module uses it: the attribute
  \<^verbatim>\<open>name\<close> and the methods \<^verbatim>\<open>get_tool_description()\<close> and \<^verbatim>\<open>run_tool(arguments)\<close>.
  The handler classes are imported by the module and are not part of it, so a handler
  is given by what these three yield. Either method returns or raises. \<open>run_tool\<close> is
  the awaited coroutine: its outcome is a function of the argument dictionary and of the
  outside world \<open>'w\<close> that the handler reads (the responses of the providers, the clock).
\<close>

record 'w handler =
  handler_name :: string
  get_tool_description :: "py_exc + tool"
  run_tool :: "pyval \<Rightarrow> 'w \<Rightarrow> py_exc + content list"

subsection \<open>Server state\<close>

text \<open>
  \<open>tool_handlers\<close> is the module global. \<open>awaited\<close> records the effect of dispatch
  that the claims speak about: the name of every handler whose \<^verbatim>\<open>run_tool\<close> was
  awaited, oldest first.
\<close>

record 'w server =
  tool_handlers :: "(string \<times> 'w handler) list"
  awaited :: "string list"

definition init_server :: "'w server" where
  "init_server = \<lparr>tool_handlers = [], awaited = []\<rparr>"

section \<open>Operations\<close>

definition add_tool_handler :: "'w handler \<Rightarrow> 'w server \<Rightarrow> 'w server" where
  "add_tool_handler tool_handler s =
     s\<lparr>tool_handlers := dict_set (handler_name tool_handler) tool_handler (tool_handlers s)\<rparr>"

definition get_tool_handler :: "string \<Rightarrow> 'w server \<Rightarrow> 'w handler option" where
  "get_tool_handler name s = dict_get (tool_handlers s) name"

text \<open>
  \<^verbatim>\<open>register_all_tools\<close> constructs six handler objects and registers them one after
  the other; the six instances are parameters here, in the order of the source.
\<close>

definition register_all_tools ::
  "'w handler \<Rightarrow> 'w handler \<Rightarrow> 'w handler \<Rightarrow> 'w handler \<Rightarrow> 'w handler \<Rightarrow> 'w handler
     \<Rightarrow> 'w server \<Rightarrow> 'w server" where
  "register_all_tools current_weather weather_range weather_details
       current_datetime timezone_info convert_time s =
     add_tool_handler convert_time
       (add_tool_handler timezone_info
         (add_tool_handler current_datetime
           (add_tool_handler weather_details
             (add_tool_handler weather_range
               (add_tool_handler current_weather s)))))"

text \<open>
  A list comprehension \<^verbatim>\<open>[f(x) for x in xs]\<close> evaluates from left to right; the first
  call that raises ends it with that exception.
\<close>

fun comprehension :: "('a \<Rightarrow> py_exc + 'b) \<Rightarrow> 'a list \<Rightarrow> py_exc + 'b list" where
  "comprehension f [] = Inr []"
| "comprehension f (x # xs) =
     (case f x of
        Inl e \<Rightarrow> Inl e
      | Inr y \<Rightarrow> (case comprehension f xs of Inl e \<Rightarrow> Inl e | Inr ys \<Rightarrow> Inr (y # ys)))"

text \<open>
  \<^verbatim>\<open>list_tools\<close>: the comprehension over \<^verbatim>\<open>tool_handlers.values()\<close>. The \<^verbatim>\<open>except\<close>
  clause logs and re-raises what the comprehension raised.
\<close>

definition list_tools :: "'w server \<Rightarrow> (py_exc + tool list) \<times> 'w server" where
  "list_tools s =
     (case comprehension get_tool_description (dict_values (tool_handlers s)) of
        Inl e \<Rightarrow> (Inl e, s)
      | Inr tools \<Rightarrow> (Inr tools, s))"

definition apostrophe :: char where
  "apostrophe = CHR 0x27"

text \<open>The f-string \<^verbatim>\<open>f"Error executing tool '{name}': {str(e)}"\<close>.\<close>

definition error_text :: "string \<Rightarrow> string \<Rightarrow> string" where
  "error_text name msg =
     ''Error executing tool '' @ [apostrophe] @ name @ [apostrophe] @ '': '' @ msg"

text \<open>
  The \<^verbatim>\<open>try\<close> block of \<^verbatim>\<open>call_tool\<close>: the \<^verbatim>\<open>isinstance\<close> check, the lookup, the awaited
  \<^verbatim>\<open>run_tool\<close>. A found handler object is truthy, so \<^verbatim>\<open>not tool_handler\<close> holds
  exactly when the lookup gave \<^verbatim>\<open>None\<close>.
\<close>

definition call_tool_try ::
  "string \<Rightarrow> pyval \<Rightarrow> 'w \<Rightarrow> 'w server \<Rightarrow> (py_exc + content list) \<times> 'w server" where
  "call_tool_try name arguments w s =
     (if \<not> isinstance_dict arguments
      then (Inl (Exception ''RuntimeError'' ''Arguments must be a dictionary''), s)
      else (case get_tool_handler name s of
              None \<Rightarrow> (Inl (Exception ''ValueError'' (''Unknown tool: '' @ name)), s)
            | Some tool_handler \<Rightarrow>
                (run_tool tool_handler arguments w, s\<lparr>awaited := awaited s @ [name]\<rparr>)))"

text \<open>
  \<^verbatim>\<open>call_tool\<close>: the \<^verbatim>\<open>try\<close> block under \<^verbatim>\<open>except Exception as e\<close>. \<open>Inl\<close> is an
  exception that leaves \<^verbatim>\<open>call_tool\<close>.
\<close>

definition call_tool ::
  "string \<Rightarrow> pyval \<Rightarrow> 'w \<Rightarrow> 'w server \<Rightarrow> (py_exc + content list) \<times> 'w server" where
  "call_tool name arguments w s =
     (case call_tool_try name arguments w s of
        (Inl (Exception cls msg), s') \<Rightarrow> (Inr [TextContent (error_text name msg)], s')
      | (Inl (BaseException cls msg), s') \<Rightarrow> (Inl (BaseException cls msg), s')
      | (Inr result, s') \<Rightarrow> (Inr result, s'))"

text \<open>The server state after registering the handlers \<open>hs\<close> in this order at start-up.\<close>

definition registered :: "'w handler list \<Rightarrow> 'w server" where
  "registered hs = foldl (\<lambda>s h. add_tool_handler h s) init_server hs"

section \<open>The lookup pipeline behind the weather tools\<close>

text \<open>
  The Coordinate Resolver, the Weather Lookup and the handler classes are in the modules
  under \<^verbatim>\<open>tools/\<close>, which are not among the source files. What the claims need of
  them is written down here from the specification (its sections 4.1 to 4.3, 6 and 7).
\<close>

text \<open>
  Modelled from the spec: the error taxonomy of section 7; the exception classes
  themselves are in the missing modules.
\<close>

datatype failure =
    InvalidArgumentError
  | UnknownToolError
  | NotFoundError
  | UpstreamError
  | DataShapeError
  | UnknownTimezoneError

fun class_name :: "failure \<Rightarrow> string" where
  "class_name InvalidArgumentError = ''InvalidArgumentError''"
| "class_name UnknownToolError = ''UnknownToolError''"
| "class_name NotFoundError = ''NotFoundError''"
| "class_name UpstreamError = ''UpstreamError''"
| "class_name DataShapeError = ''DataShapeError''"
| "class_name UnknownTimezoneError = ''UnknownTimezoneError''"

text \<open>
  Modelled from the spec: an inner component signals an error of the taxonomy about a
  subject (a city, an argument, a provider). The specification fixes no wording of the
  messages, so \<open>wording\<close> is a parameter: the message of each kind of error about a
  subject.
\<close>

definition signal :: "(failure \<Rightarrow> string \<Rightarrow> string) \<Rightarrow> failure \<Rightarrow> string \<Rightarrow> py_exc + 'a" where
  "signal wording f subject = Inl (Exception (class_name f) (wording f subject))"

text \<open>
  Modelled from the spec: what a provider answers to one request (sections 4.1, 4.2 and
  6): a success status with the decoded body, a non-success status, or an error of the
  transport (timeout, connection, DNS).
\<close>

datatype 'a reply =
    Success 'a
  | NonSuccess nat
  | TransportError string

text \<open>Modelled from the spec: the Coordinates of the data model (section 3).\<close>

record coordinates =
  latitude :: pyval
  longitude :: pyval

text \<open>
  Modelled from the spec: the \<^verbatim>\<open>hourly\<close> object of the weather provider's body (section
  6), parallel arrays keyed by field name; a field that is absent is \<open>None\<close>.
\<close>

record hourly =
  hourly_time :: "string list option"
  hourly_temperature_2m :: "pyval list option"
  hourly_relative_humidity_2m :: "pyval list option"
  hourly_dew_point_2m :: "pyval list option"
  hourly_weather_code :: "int list option"

text \<open>Modelled from the spec: the WeatherReading of the data model (section 3).\<close>

record weather_reading =
  timestamp :: string
  temperature_celsius :: pyval
  relative_humidity_percent :: pyval
  dew_point_celsius :: pyval
  weather_code :: int
  weather_description :: string

text \<open>
  Modelled from the spec: the two providers as the handlers see them (section 6), the
  \<^verbatim>\<open>results\<close> array answered to a place name and the body answered to a weather request
  for coordinates.
\<close>

record providers =
  geocoding :: "string \<Rightarrow> coordinates list reply"
  weather :: "coordinates \<Rightarrow> hourly reply"

text \<open>
  Modelled from the spec: what a handler reads from outside the process, the upstream
  providers (section 6) and the system clock, which the time utilities (section 4.5) and
  the choice of the current hour read. The clock is given by its reading, a timestamp.
\<close>

record world =
  upstream :: providers
  clock :: string

text \<open>
  Modelled from the spec: the Coordinate Resolver \<^verbatim>\<open>resolve(place_name)\<close> of section 4.1,
  applied to the answer of the geocoding provider. It takes the first result, signals
  \<^verbatim>\<open>NotFoundError\<close> on zero results and \<^verbatim>\<open>UpstreamError\<close> on a non-success status or a
  transport error.
\<close>

definition resolve ::
  "(failure \<Rightarrow> string \<Rightarrow> string) \<Rightarrow> string \<Rightarrow> coordinates list reply \<Rightarrow> py_exc + coordinates" where
  "resolve wording place_name r =
     (case r of
        Success [] \<Rightarrow> signal wording NotFoundError place_name
      | Success (c # cs) \<Rightarrow> Inr c
      | NonSuccess status \<Rightarrow> signal wording UpstreamError place_name
      | TransportError m \<Rightarrow> signal wording UpstreamError place_name)"

text \<open>
  Modelled from the spec: the static table from weather code to description of section
  4.2. The specification gives two of its entries, for the codes 0 and 1; \<open>others\<close> stands
  for the entries it does not give.
\<close>

definition weather_descriptions :: "(int \<times> string) list \<Rightarrow> (int \<times> string) list" where
  "weather_descriptions others = (0, ''Clear sky'') # (1, ''Mainly clear'') # others"

text \<open>
  Modelled from the spec: the translation of a weather code; a code that is not in the
  table gets the generic description.
\<close>

definition describe_code :: "(int \<times> string) list \<Rightarrow> int \<Rightarrow> string" where
  "describe_code others code =
     (case dict_get (weather_descriptions others) code of
        Some description \<Rightarrow> description
      | None \<Rightarrow> ''Unknown'')"

text \<open>
  Modelled from the spec: the parallel arrays zipped into one reading per index, in the
  provider's order.
\<close>

fun zip_readings ::
  "(int \<times> string) list \<Rightarrow> string list \<Rightarrow> pyval list \<Rightarrow> pyval list \<Rightarrow> pyval list \<Rightarrow> int list
     \<Rightarrow> weather_reading list" where
  "zip_readings others (t # ts) (temp # temps) (hum # hums) (dew # dews) (code # codes) =
     \<lparr>timestamp = t, temperature_celsius = temp, relative_humidity_percent = hum,
      dew_point_celsius = dew, weather_code = code,
      weather_description = describe_code others code\<rparr>
     # zip_readings others ts temps hums dews codes"
| "zip_readings others ts temps hums dews codes = []"

text \<open>
  Modelled from the spec: the Weather Lookup \<^verbatim>\<open>fetch\<close> of section 4.2, applied to the answer
  of the weather provider. It signals \<^verbatim>\<open>UpstreamError\<close> on a non-success status or a
  transport error and \<^verbatim>\<open>DataShapeError\<close> when a field is absent or the arrays differ in
  length.
\<close>

definition fetch ::
  "(failure \<Rightarrow> string \<Rightarrow> string) \<Rightarrow> (int \<times> string) list \<Rightarrow> hourly reply
     \<Rightarrow> py_exc + weather_reading list" where
  "fetch wording others r =
     (case r of
        NonSuccess status \<Rightarrow> signal wording UpstreamError ''weather''
      | TransportError m \<Rightarrow> signal wording UpstreamError ''weather''
      | Success body \<Rightarrow>
          (case (hourly_time body, hourly_temperature_2m body, hourly_relative_humidity_2m body,
                 hourly_dew_point_2m body, hourly_weather_code body) of
             (Some ts, Some temps, Some hums, Some dews, Some codes) \<Rightarrow>
               if length temps = length ts \<and> length hums = length ts
                  \<and> length dews = length ts \<and> length codes = length ts
               then Inr (zip_readings others ts temps hums dews codes)
               else signal wording DataShapeError ''hourly''
           | _ \<Rightarrow> signal wording DataShapeError ''hourly''))"

text \<open>
  Modelled from the spec: \<^verbatim>\<open>execute\<close> of the CurrentWeather handler (section 4.3): the
  required argument \<^verbatim>\<open>city\<close>, then resolve, then fetch, one step after the other; an
  error of a step ends the call. \<open>render\<close> picks the reading of the current hour, which
  it takes from the clock, and serialises the result into the body of the one text
  content.
\<close>

definition current_weather_run_tool ::
  "(failure \<Rightarrow> string \<Rightarrow> string) \<Rightarrow> (int \<times> string) list
     \<Rightarrow> (string \<Rightarrow> string \<Rightarrow> coordinates \<Rightarrow> weather_reading list \<Rightarrow> string)
     \<Rightarrow> pyval \<Rightarrow> world \<Rightarrow> py_exc + content list" where
  "current_weather_run_tool wording others render arguments w =
     (case arguments of
        PDict d \<Rightarrow>
          (case dict_get d ''city'' of
             Some (PStr city) \<Rightarrow>
               (case resolve wording city (geocoding (upstream w) city) of
                  Inl e \<Rightarrow> Inl e
                | Inr coords \<Rightarrow>
                    (case fetch wording others (weather (upstream w) coords) of
                       Inl e \<Rightarrow> Inl e
                     | Inr readings \<Rightarrow>
                         Inr [TextContent (render (clock w) city coords readings)]))
           | _ \<Rightarrow> signal wording InvalidArgumentError ''city'')
      | _ \<Rightarrow> signal wording InvalidArgumentError ''city'')"

text \<open>
  Modelled from the spec: the CurrentWeather handler object, one descriptor and the
  \<^verbatim>\<open>execute\<close> above; its declared name is the name of its descriptor.
\<close>

definition current_weather ::
  "tool \<Rightarrow> (failure \<Rightarrow> string \<Rightarrow> string) \<Rightarrow> (int \<times> string) list
     \<Rightarrow> (string \<Rightarrow> string \<Rightarrow> coordinates \<Rightarrow> weather_reading list \<Rightarrow> string) \<Rightarrow> world handler" where
  "current_weather descriptor wording others render =
     \<lparr>handler_name = tool_name descriptor,
      get_tool_description = Inr descriptor,
      run_tool = current_weather_run_tool wording others render\<rparr>"

text \<open>
  Modelled from the spec: \<^verbatim>\<open>execute\<close> of the CurrentDateTime handler (sections 4.3 and
  4.5): the optional argument \<^verbatim>\<open>timezone\<close>, and the current date and time formatted for
  that zone as the body of the one text content. \<open>now\<close> is the time utility: the clock
  reading formatted for a zone (for the local zone when none is given), or \<open>None\<close> when
  the zone name does not resolve, which is an \<^verbatim>\<open>UnknownTimezoneError\<close>.
\<close>

definition current_datetime_run_tool ::
  "(failure \<Rightarrow> string \<Rightarrow> string) \<Rightarrow> (string option \<Rightarrow> string \<Rightarrow> string option)
     \<Rightarrow> pyval \<Rightarrow> world \<Rightarrow> py_exc + content list" where
  "current_datetime_run_tool wording now arguments w =
     (case arguments of
        PDict d \<Rightarrow>
          (case dict_get d ''timezone'' of
             None \<Rightarrow>
               (case now None (clock w) of
                  Some formatted \<Rightarrow> Inr [TextContent formatted]
                | None \<Rightarrow> signal wording UnknownTimezoneError ''local'')
           | Some (PStr zone) \<Rightarrow>
               (case now (Some zone) (clock w) of
                  Some formatted \<Rightarrow> Inr [TextContent formatted]
                | None \<Rightarrow> signal wording UnknownTimezoneError zone)
           | Some v \<Rightarrow> signal wording InvalidArgumentError ''timezone'')
      | _ \<Rightarrow> signal wording InvalidArgumentError ''timezone'')"

text \<open>
  Modelled from the spec: the CurrentDateTime handler object, one descriptor and the
  \<^verbatim>\<open>execute\<close> above; its declared name is the name of its descriptor.
\<close>

definition current_datetime ::
  "tool \<Rightarrow> (failure \<Rightarrow> string \<Rightarrow> string) \<Rightarrow> (string option \<Rightarrow> string \<Rightarrow> string option)
     \<Rightarrow> world handler" where
  "current_datetime descriptor wording now =
     \<lparr>handler_name = tool_name descriptor,
      get_tool_description = Inr descriptor,
      run_tool = current_datetime_run_tool wording now\<rparr>"

section \<open>Values for concrete inputs\<close>


definition mock_weather_response :: "hourly reply" where
  "mock_weather_response =
     Success
       \<lparr>hourly_time = Some [''2024-01-01T12:00'', ''2024-01-01T13:00''],
        hourly_temperature_2m = Some [PFloat 200 (- 1), PFloat 210 (- 1)],
        hourly_relative_humidity_2m = Some [PInt 65, PInt 66],
        hourly_dew_point_2m = Some [PFloat 130 (- 1), PFloat 140 (- 1)],
        hourly_weather_code = Some [0, 1]\<rparr>"


text \<open>A wording for concrete inputs: the subject, then what went wrong.\<close>

fun plain_wording :: "failure \<Rightarrow> string \<Rightarrow> string" where
  "plain_wording NotFoundError subject = subject @ '' was not found''"
| "plain_wording f subject = subject @ '': '' @ class_name f"



text \<open>
  A handler object for concrete inputs: it describes itself under its own name, and
  \<open>run_tool\<close> ends with the given outcome whatever the arguments and the outside world
  are.
\<close>

definition stub_handler :: "string \<Rightarrow> string \<Rightarrow> (py_exc + content list) \<Rightarrow> 'w handler" where
  "stub_handler name descr outcome =
     \<lparr>handler_name = name,
      get_tool_description =
        Inr \<lparr>tool_name = name, tool_description = descr, inputSchema = PDict []\<rparr>,
      run_tool = (\<lambda>arguments w. outcome)\<rparr>"

section \<open>Dictionary facts\<close>

lemma dict_get_dict_set: "dict_get (dict_set k v d) k' = (if k' = k then Some v else dict_get d k')"
  by (induction d) auto

lemma dict_get_None_iff: "dict_get d k = None \<longleftrightarrow> k \<notin> set (map fst d)"
  by (induction d) (auto split: if_splits)

lemma keys_dict_set:
  "map fst (dict_set k v d) = (if k \<in> set (map fst d) then map fst d else map fst d @ [k])"
  by (induction d) (auto split: if_splits)

lemma registered_snoc: "registered (hs @ [h]) = add_tool_handler h (registered hs)"
  by (simp add: registered_def)

lemma registered_Nil: "registered [] = init_server"
  by (simp add: registered_def)

lemma get_registered:
  "get_tool_handler name (registered hs) = find (\<lambda>h. handler_name h = name) (rev hs)"
proof (induction hs rule: rev_induct)
  case Nil
  show ?case by (simp add: registered_Nil get_tool_handler_def init_server_def)
next
  case (snoc h hs)
  have "get_tool_handler name (registered (hs @ [h])) =
          (if name = handler_name h then Some h else get_tool_handler name (registered hs))"
    by (simp add: registered_snoc get_tool_handler_def add_tool_handler_def dict_get_dict_set)
  with snoc show ?case by auto
qed

section \<open>Registry lookup\<close>

text \<open>
  Claim C10. \<open>get_tool_handler\<close> is a total function of the name: it returns \<open>None\<close>
  exactly when no handler is registered under the name, and otherwise the handler that
  was registered under that name last; straight after \<open>add_tool_handler h\<close> the lookup
  of the name of \<open>h\<close> returns \<open>h\<close>.
\<close>

theorem get_tool_handler_latest:
  "get_tool_handler (handler_name h) (add_tool_handler h s) = Some h
   \<and> get_tool_handler name (registered hs) = find (\<lambda>h. handler_name h = name) (rev hs)
   \<and> (get_tool_handler name s = None \<longleftrightarrow> name \<notin> set (dict_keys (tool_handlers s)))"
  by (simp add: get_registered)
     (simp add: get_tool_handler_def add_tool_handler_def dict_get_dict_set
        dict_get_None_iff dict_keys_def)

section \<open>Registration\<close>

lemma get_add_other:
  "name \<noteq> handler_name h \<Longrightarrow> get_tool_handler name (add_tool_handler h s) = get_tool_handler name s"
  by (simp add: get_tool_handler_def add_tool_handler_def dict_get_dict_set)

lemma keys_add:
  "dict_keys (tool_handlers (add_tool_handler h s)) =
     (if handler_name h \<in> set (dict_keys (tool_handlers s))
      then dict_keys (tool_handlers s)
      else dict_keys (tool_handlers s) @ [handler_name h])"
  by (simp add: add_tool_handler_def dict_keys_def keys_dict_set)

text \<open>
  Claim C4, as the code has it. \<open>add_tool_handler\<close> has no check and no failing
  branch: it always stores the handler under its declared name. A fresh name becomes
  the last key of the registry; a name that is already a key keeps its place and all
  other entries stay as they are, and the handler stored there before is replaced.
\<close>

theorem add_tool_handler_stores:
  "get_tool_handler (handler_name h) (add_tool_handler h s) = Some h
   \<and> (name \<noteq> handler_name h \<longrightarrow>
        get_tool_handler name (add_tool_handler h s) = get_tool_handler name s)
   \<and> dict_keys (tool_handlers (add_tool_handler h s)) =
        (if handler_name h \<in> set (dict_keys (tool_handlers s))
         then dict_keys (tool_handlers s)
         else dict_keys (tool_handlers s) @ [handler_name h])
   \<and> awaited (add_tool_handler h s) = awaited s"
proof -
  have "get_tool_handler (handler_name h) (add_tool_handler h s) = Some h"
    by (simp add: get_tool_handler_def add_tool_handler_def dict_get_dict_set)
  moreover have "awaited (add_tool_handler h s) = awaited s"
    by (simp add: add_tool_handler_def)
  ultimately show ?thesis
    using get_add_other [of name h s] keys_add [of h s] by simp
qed

theorem add_tool_handler_stores_witness:
  "''get_weather'' \<noteq> handler_name (stub_handler ''get_time'' ''second'' (Inr []) :: unit handler)
   \<and> get_tool_handler ''get_time''
        (add_tool_handler (stub_handler ''get_time'' ''second'' (Inr []))
          (registered [stub_handler ''get_time'' ''first'' (Inr []),
                       stub_handler ''get_weather'' ''w'' (Inr [])]))
       = Some (stub_handler ''get_time'' ''second'' (Inr []) :: unit handler)
   \<and> get_tool_handler ''get_weather''
        (add_tool_handler (stub_handler ''get_time'' ''second'' (Inr []))
          (registered [stub_handler ''get_time'' ''first'' (Inr []),
                       stub_handler ''get_weather'' ''w'' (Inr [])]))
       = Some (stub_handler ''get_weather'' ''w'' (Inr []) :: unit handler)
   \<and> dict_keys (tool_handlers
        (add_tool_handler (stub_handler ''get_time'' ''second'' (Inr []))
          (registered [stub_handler ''get_time'' ''first'' (Inr []),
                       stub_handler ''get_weather'' ''w'' (Inr []) :: unit handler])))
       = [''get_time'', ''get_weather'']"
  using add_tool_handler_stores
    [of "stub_handler ''get_time'' ''second'' (Inr []) :: unit handler"
        "registered [stub_handler ''get_time'' ''first'' (Inr []),
                     stub_handler ''get_weather'' ''w'' (Inr [])]"
        "''get_weather''"]
  by (simp add: registered_def init_server_def add_tool_handler_def get_tool_handler_def
        stub_handler_def dict_keys_def)

text \<open>
  Claim C4 as the specification states it fails: registering a second handler under the
  name \<open>get_time\<close> signals nothing. The call returns a state in which the second
  handler is the one stored under that name, in place of the first.
\<close>

theorem add_tool_handler_duplicate_counterexample:
  "get_tool_handler ''get_time''
      (registered [stub_handler ''get_time'' ''first'' (Inr []) :: unit handler])
     = Some (stub_handler ''get_time'' ''first'' (Inr []))
   \<and> get_tool_handler ''get_time''
      (add_tool_handler (stub_handler ''get_time'' ''second'' (Inr []))
        (registered [stub_handler ''get_time'' ''first'' (Inr []) :: unit handler]))
     = Some (stub_handler ''get_time'' ''second'' (Inr []))
   \<and> add_tool_handler (stub_handler ''get_time'' ''second'' (Inr []))
        (registered [stub_handler ''get_time'' ''first'' (Inr []) :: unit handler])
     \<noteq> registered [stub_handler ''get_time'' ''first'' (Inr [])]"
  by (simp add: registered_def init_server_def add_tool_handler_def get_tool_handler_def
        stub_handler_def)

section \<open>Dispatch\<close>

lemma call_tool_not_dict:
  "\<not> isinstance_dict arguments \<Longrightarrow>
     call_tool name arguments w s =
       (Inr [TextContent (error_text name ''Arguments must be a dictionary'')], s)"
  by (simp add: call_tool_def call_tool_try_def)

lemma call_tool_absent:
  "isinstance_dict arguments \<Longrightarrow> get_tool_handler name s = None \<Longrightarrow>
     call_tool name arguments w s =
       (Inr [TextContent (error_text name (''Unknown tool: '' @ name))], s)"
  by (simp add: call_tool_def call_tool_try_def)

lemma call_tool_found:
  "isinstance_dict arguments \<Longrightarrow> get_tool_handler name s = Some h \<Longrightarrow>
     call_tool name arguments w s =
       (case run_tool h arguments w of
          Inl (Exception cls msg) \<Rightarrow> Inr [TextContent (error_text name msg)]
        | Inl (BaseException cls msg) \<Rightarrow> Inl (BaseException cls msg)
        | Inr result \<Rightarrow> Inr result,
        s\<lparr>awaited := awaited s @ [name]\<rparr>)"
  by (simp add: call_tool_def call_tool_try_def split: sum.splits py_exc.splits)

lemma call_tool_no_Exception: "fst (call_tool name arguments w s) \<noteq> Inl (Exception cls msg)"
  by (simp add: call_tool_def split: prod.splits sum.splits py_exc.splits)

lemma call_tool_registry: "tool_handlers (snd (call_tool name arguments w s)) = tool_handlers s"
proof (cases "isinstance_dict arguments")
  case False
  then show ?thesis by (simp add: call_tool_not_dict)
next
  case True
  then show ?thesis
    by (cases "get_tool_handler name s") (simp_all add: call_tool_absent call_tool_found)
qed

lemma list_tools_state: "snd (list_tools s) = s"
  by (simp add: list_tools_def split: sum.splits)



text \<open>
  Claim C1. Whatever the tool name, the arguments, the registry and the outside world
  are: a failure raised by the argument check, by the lookup or by the awaited handler
  is caught in \<open>call_tool\<close>, which then returns one text content with the body
  \<^verbatim>\<open>Error executing tool '<name>': <message>\<close>; no instance of \<^verbatim>\<open>Exception\<close> ever
  leaves \<open>call_tool\<close>. A failure is an instance of \<^verbatim>\<open>Exception\<close>, as every error of
  the taxonomy is; a cancellation of the task is not one and is not held back.
\<close>

theorem call_tool_reports_failure:
  "(\<not> isinstance_dict arguments \<longrightarrow>
      fst (call_tool name arguments w s) =
        Inr [TextContent (error_text name ''Arguments must be a dictionary'')])
   \<and> (isinstance_dict arguments \<and> get_tool_handler name s = None \<longrightarrow>
      fst (call_tool name arguments w s) =
        Inr [TextContent (error_text name (''Unknown tool: '' @ name))])
   \<and> (isinstance_dict arguments \<and> get_tool_handler name s = Some h
        \<and> run_tool h arguments w = Inl (Exception cls msg) \<longrightarrow>
      fst (call_tool name arguments w s) = Inr [TextContent (error_text name msg)])
   \<and> fst (call_tool name arguments w s) \<noteq> Inl (Exception cls' msg')
   \<and> error_text name msg =
        ''Error executing tool '' @ [CHR 0x27] @ name @ [CHR 0x27] @ '': '' @ msg"
proof -
  have "error_text name msg =
          ''Error executing tool '' @ [CHR 0x27] @ name @ [CHR 0x27] @ '': '' @ msg"
    by (simp add: error_text_def apostrophe_def)
  then show ?thesis
    by (simp add: call_tool_not_dict call_tool_absent call_tool_found call_tool_no_Exception)
qed

theorem call_tool_reports_failure_witness:
  "\<not> isinstance_dict (PList [])
   \<and> fst (call_tool ''get_time'' (PList []) () init_server) =
       Inr [TextContent (error_text ''get_time'' ''Arguments must be a dictionary'')]
   \<and> isinstance_dict (PDict [])
   \<and> get_tool_handler ''get_time'' (init_server :: unit server) = None
   \<and> fst (call_tool ''get_time'' (PDict []) () init_server) =
       Inr [TextContent (error_text ''get_time'' ''Unknown tool: get_time'')]
   \<and> get_tool_handler ''get_time''
        (registered [stub_handler ''get_time'' ''d'' (Inl (Exception ''ValueError'' ''tz''))])
       = Some (stub_handler ''get_time'' ''d'' (Inl (Exception ''ValueError'' ''tz'')) :: unit handler)
   \<and> run_tool (stub_handler ''get_time'' ''d'' (Inl (Exception ''ValueError'' ''tz'')))
        (PDict []) () = Inl (Exception ''ValueError'' ''tz'')
   \<and> fst (call_tool ''get_time'' (PDict []) ()
        (registered [stub_handler ''get_time'' ''d'' (Inl (Exception ''ValueError'' ''tz''))]))
       = Inr [TextContent ''Error executing tool 'get_time': tz'']"
proof -
  let ?h = "stub_handler ''get_time'' ''d'' (Inl (Exception ''ValueError'' ''tz'')) :: unit handler"
  have found: "get_tool_handler ''get_time'' (registered [?h]) = Some ?h"
    by (simp add: registered_def init_server_def add_tool_handler_def get_tool_handler_def
          stub_handler_def)
  have raised: "run_tool ?h (PDict []) () = Inl (Exception ''ValueError'' ''tz'')"
    by (simp add: stub_handler_def)
  have none: "get_tool_handler ''get_time'' (init_server :: unit server) = None"
    by (simp add: init_server_def get_tool_handler_def)
  have body: "error_text ''get_time'' ''tz'' = ''Error executing tool 'get_time': tz''"
    by (simp add: error_text_def apostrophe_def)
  show ?thesis
    using call_tool_reports_failure [where arguments = "PList []" and name = "''get_time''"
        and w = "()" and s = "init_server :: unit server"]
      call_tool_reports_failure [where arguments = "PDict []" and name = "''get_time''"
        and w = "()" and s = "init_server :: unit server"]
      call_tool_reports_failure [where arguments = "PDict []" and name = "''get_time''"
        and w = "()" and s = "registered [?h]" and h = ?h
        and cls = "''ValueError''" and msg = "''tz''"]
      found raised none body
    by simp
qed

lemma sublist_between: "sublist xs (ps @ xs @ ss)"
  unfolding sublist_def by blast

lemma error_text_has_name: "sublist name (error_text name msg)"
proof -
  have "error_text name msg =
          (''Error executing tool '' @ [apostrophe]) @ name @ ([apostrophe] @ '': '' @ msg)"
    by (simp add: error_text_def)
  then show ?thesis by (simp only: sublist_between)
qed

lemma error_text_has_message: "sublist xs msg \<Longrightarrow> sublist xs (error_text name msg)"
proof -
  assume "sublist xs msg"
  then obtain ps ss where "msg = ps @ xs @ ss"
    unfolding sublist_def by blast
  then have "error_text name msg =
          (''Error executing tool '' @ [apostrophe] @ name @ [apostrophe] @ '': '' @ ps) @ xs @ ss"
    by (simp add: error_text_def)
  then show ?thesis by (simp only: sublist_between)
qed

text \<open>
  Claim C2. For a name that is not a key of the registry, \<open>call_tool\<close> with the empty
  dictionary returns (it does not raise) exactly one text content; its body is
  \<^verbatim>\<open>Error executing tool '<name>': Unknown tool: <name>\<close>, so it contains the name itself
  and the words \<^verbatim>\<open>Unknown tool\<close>. The state is left as it was: no handler is awaited.
\<close>

theorem call_tool_unknown_tool:
  assumes "get_tool_handler name s = None"
  shows "call_tool name (PDict []) w s =
           (Inr [TextContent (error_text name (''Unknown tool: '' @ name))], s)
         \<and> sublist name (error_text name (''Unknown tool: '' @ name))
         \<and> sublist ''Unknown tool'' (error_text name (''Unknown tool: '' @ name))"
proof -
  have "''Unknown tool: '' @ name = [] @ ''Unknown tool'' @ ('': '' @ name)"
    by simp
  then have "sublist ''Unknown tool'' (''Unknown tool: '' @ name)"
    by (simp only: sublist_between)
  then have "sublist ''Unknown tool'' (error_text name (''Unknown tool: '' @ name))"
    by (rule error_text_has_message)
  with assms show ?thesis
    by (simp add: call_tool_absent error_text_has_name)
qed

theorem call_tool_unknown_tool_witness:
  "get_tool_handler ''get_tides''
      (registered [stub_handler ''get_time'' ''d'' (Inr []) :: unit handler]) = None
   \<and> call_tool ''get_tides'' (PDict []) ()
        (registered [stub_handler ''get_time'' ''d'' (Inr [])]) =
       (Inr [TextContent ''Error executing tool 'get_tides': Unknown tool: get_tides''],
        registered [stub_handler ''get_time'' ''d'' (Inr [])])"
proof -
  let ?s = "registered [stub_handler ''get_time'' ''d'' (Inr []) :: unit handler]"
  have absent: "get_tool_handler ''get_tides'' ?s = None"
    by (simp add: registered_def init_server_def add_tool_handler_def get_tool_handler_def
          stub_handler_def)
  have body: "error_text ''get_tides'' (''Unknown tool: '' @ ''get_tides'') =
                ''Error executing tool 'get_tides': Unknown tool: get_tides''"
    by (simp add: error_text_def apostrophe_def)
  show ?thesis
    using call_tool_unknown_tool [OF absent, of "()"] absent body by simp
qed

text \<open>
  Claim C3. When the arguments are not a mapping, the \<^verbatim>\<open>try\<close> block ends at its first
  statement: it raises the \<^verbatim>\<open>RuntimeError\<close> "Arguments must be a dictionary" (the
  invalid-argument error of the taxonomy) with the state untouched, so before the
  registry is read and with no handler awaited, and \<open>call_tool\<close> turns it into one
  error text content. The check of the code is \<^verbatim>\<open>isinstance(arguments, dict)\<close>, which every
  value that is not a mapping fails.
\<close>

theorem call_tool_rejects_non_mapping:
  assumes "\<not> isinstance_mapping arguments"
  shows "call_tool_try name arguments w s =
           (Inl (Exception ''RuntimeError'' ''Arguments must be a dictionary''), s)
         \<and> call_tool name arguments w s =
           (Inr [TextContent (error_text name ''Arguments must be a dictionary'')], s)"
proof -
  from assms have "\<not> isinstance_dict arguments"
    by (cases arguments) simp_all
  then show ?thesis
    by (simp add: call_tool_not_dict) (simp add: call_tool_try_def)
qed

theorem call_tool_rejects_non_mapping_witness:
  "\<not> isinstance_mapping (PStr ''Paris'')
   \<and> call_tool_try ''get_time'' (PStr ''Paris'') ()
        (registered [stub_handler ''get_time'' ''d'' (Inr [TextContent ''noon''])]) =
       (Inl (Exception ''RuntimeError'' ''Arguments must be a dictionary''),
        registered [stub_handler ''get_time'' ''d'' (Inr [TextContent ''noon''])])
   \<and> call_tool ''get_time'' (PStr ''Paris'') ()
        (registered [stub_handler ''get_time'' ''d'' (Inr [TextContent ''noon''])]) =
       (Inr [TextContent ''Error executing tool 'get_time': Arguments must be a dictionary''],
        registered [stub_handler ''get_time'' ''d'' (Inr [TextContent ''noon''])])"
proof -
  have shape: "\<not> isinstance_mapping (PStr ''Paris'')"
    by simp
  have body: "error_text ''get_time'' ''Arguments must be a dictionary'' =
                ''Error executing tool 'get_time': Arguments must be a dictionary''"
    by (simp add: error_text_def apostrophe_def)
  show ?thesis
    using call_tool_rejects_non_mapping [OF shape, of "''get_time''" "()"
        "registered [stub_handler ''get_time'' ''d'' (Inr [TextContent ''noon''])]"]
      shape body
    by simp
qed

lemma call_tool_other_handlers:
  assumes "get_tool_handler name s' = get_tool_handler name s"
  shows "fst (call_tool name arguments w s') = fst (call_tool name arguments w s)"
proof (cases "isinstance_dict arguments")
  case False
  then show ?thesis by (simp add: call_tool_not_dict)
next
  case True
  note dict = this
  show ?thesis
  proof (cases "get_tool_handler name s")
    case None
    with dict assms show ?thesis by (simp add: call_tool_absent)
  next
    case (Some h)
    with assms have "get_tool_handler name s' = Some h" by simp
    with dict Some show ?thesis by (simp add: call_tool_found)
  qed
qed

text \<open>
  Claim C6. One call of \<open>call_tool\<close> applies at most one handler. When the arguments are
  not a dictionary or the name is not registered, it applies none: the result is the
  error content, which no handler enters, and the state is returned as it was. Otherwise
  it applies exactly the handler \<open>h\<close> registered under the name, once, to the given
  arguments: the result is the outcome of \<open>run_tool h\<close> (with an \<^verbatim>\<open>Exception\<close> turned
  into the error content), and exactly the one name is added to the log of awaited
  handlers. No other registered handler has a part in the result: it is the same in
  every state that has the same handler under the name. Neither \<open>call_tool\<close> nor
  \<open>list_tools\<close> changes the registry, so the registered names are the same before and
  after. (A handler is a function of the arguments and the outside world; the handler
  classes are not among the source files, and by the data model a handler owns no state
  and has no access to the registry.)
\<close>

theorem dispatch_awaits_at_most_one:
  "(\<not> isinstance_dict arguments \<longrightarrow>
      call_tool name arguments w s =
        (Inr [TextContent (error_text name ''Arguments must be a dictionary'')], s))
   \<and> (isinstance_dict arguments \<and> get_tool_handler name s = None \<longrightarrow>
      call_tool name arguments w s =
        (Inr [TextContent (error_text name (''Unknown tool: '' @ name))], s))
   \<and> (isinstance_dict arguments \<and> get_tool_handler name s = Some h \<longrightarrow>
      call_tool name arguments w s =
        (case run_tool h arguments w of
           Inl (Exception cls msg) \<Rightarrow> Inr [TextContent (error_text name msg)]
         | Inl (BaseException cls msg) \<Rightarrow> Inl (BaseException cls msg)
         | Inr result \<Rightarrow> Inr result,
         s\<lparr>awaited := awaited s @ [name]\<rparr>))
   \<and> (get_tool_handler name s' = get_tool_handler name s \<longrightarrow>
      fst (call_tool name arguments w s') = fst (call_tool name arguments w s))
   \<and> awaited (snd (call_tool name arguments w s)) =
       awaited s @ (if isinstance_dict arguments \<and> get_tool_handler name s \<noteq> None
                    then [name] else [])
   \<and> length (awaited (snd (call_tool name arguments w s))) \<le> Suc (length (awaited s))
   \<and> tool_handlers (snd (call_tool name arguments w s)) = tool_handlers s
   \<and> dict_keys (tool_handlers (snd (call_tool name arguments w s))) = dict_keys (tool_handlers s)
   \<and> snd (list_tools s) = s"
proof -
  have log: "awaited (snd (call_tool name arguments w s)) =
     awaited s @ (if isinstance_dict arguments \<and> get_tool_handler name s \<noteq> None
                  then [name] else [])"
  proof (cases "isinstance_dict arguments")
    case False
    then show ?thesis by (simp add: call_tool_not_dict)
  next
    case True
    then show ?thesis
      by (cases "get_tool_handler name s") (simp_all add: call_tool_absent call_tool_found)
  qed
  then have "length (awaited (snd (call_tool name arguments w s))) \<le> Suc (length (awaited s))"
    by simp
  moreover have "get_tool_handler name s' = get_tool_handler name s \<Longrightarrow>
      fst (call_tool name arguments w s') = fst (call_tool name arguments w s)"
    by (rule call_tool_other_handlers)
  ultimately show ?thesis
    using log
    by (simp add: call_tool_registry list_tools_state call_tool_not_dict call_tool_absent
          call_tool_found)
qed

theorem dispatch_awaits_at_most_one_witness:
  "\<not> isinstance_dict (PStr ''Paris'')
   \<and> call_tool ''get_time'' (PStr ''Paris'') ()
        (registered [stub_handler ''get_time'' ''t'' (Inr [TextContent ''noon'']),
                     stub_handler ''get_weather'' ''w'' (Inr [TextContent ''rain''])]) =
       (Inr [TextContent (error_text ''get_time'' ''Arguments must be a dictionary'')],
        registered [stub_handler ''get_time'' ''t'' (Inr [TextContent ''noon'']),
                    stub_handler ''get_weather'' ''w'' (Inr [TextContent ''rain''])])
   \<and> isinstance_dict (PDict [])
   \<and> get_tool_handler ''get_tides''
        (registered [stub_handler ''get_time'' ''t'' (Inr [TextContent ''noon'']),
                     stub_handler ''get_weather'' ''w'' (Inr [TextContent ''rain'']) :: unit handler])
       = None
   \<and> call_tool ''get_tides'' (PDict []) ()
        (registered [stub_handler ''get_time'' ''t'' (Inr [TextContent ''noon'']),
                     stub_handler ''get_weather'' ''w'' (Inr [TextContent ''rain''])]) =
       (Inr [TextContent (error_text ''get_tides'' ''Unknown tool: get_tides'')],
        registered [stub_handler ''get_time'' ''t'' (Inr [TextContent ''noon'']),
                    stub_handler ''get_weather'' ''w'' (Inr [TextContent ''rain''])])
   \<and> get_tool_handler ''get_time''
        (registered [stub_handler ''get_time'' ''t'' (Inr [TextContent ''noon'']),
                     stub_handler ''get_weather'' ''w'' (Inr [TextContent ''rain'']) :: unit handler])
       = Some (stub_handler ''get_time'' ''t'' (Inr [TextContent ''noon'']))
   \<and> call_tool ''get_time'' (PDict []) ()
        (registered [stub_handler ''get_time'' ''t'' (Inr [TextContent ''noon'']),
                     stub_handler ''get_weather'' ''w'' (Inr [TextContent ''rain''])]) =
       (Inr [TextContent ''noon''],
        registered [stub_handler ''get_time'' ''t'' (Inr [TextContent ''noon'']),
                    stub_handler ''get_weather'' ''w'' (Inr [TextContent ''rain''])]
          \<lparr>awaited := [''get_time'']\<rparr>)
   \<and> get_tool_handler ''get_time''
        (registered [stub_handler ''get_time'' ''t'' (Inr [TextContent ''noon'']) :: unit handler])
       = get_tool_handler ''get_time''
        (registered [stub_handler ''get_time'' ''t'' (Inr [TextContent ''noon'']),
                     stub_handler ''get_weather'' ''w'' (Inr [TextContent ''rain''])])
   \<and> fst (call_tool ''get_time'' (PDict []) ()
        (registered [stub_handler ''get_time'' ''t'' (Inr [TextContent ''noon''])]))
       = fst (call_tool ''get_time'' (PDict []) ()
        (registered [stub_handler ''get_time'' ''t'' (Inr [TextContent ''noon'']),
                     stub_handler ''get_weather'' ''w'' (Inr [TextContent ''rain''])]))"
proof -
  let ?t = "stub_handler ''get_time'' ''t'' (Inr [TextContent ''noon'']) :: unit handler"
  let ?r = "stub_handler ''get_weather'' ''w'' (Inr [TextContent ''rain'']) :: unit handler"
  let ?s = "registered [?t, ?r]"
  have absent: "get_tool_handler ''get_tides'' ?s = None"
    by (simp add: get_registered stub_handler_def)
  have found: "get_tool_handler ''get_time'' ?s = Some ?t"
    by (simp add: get_registered stub_handler_def)
  have alone: "get_tool_handler ''get_time'' (registered [?t]) = Some ?t"
    by (simp add: get_registered stub_handler_def)
  have outcome: "run_tool ?t (PDict []) () = Inr [TextContent ''noon'']"
    by (simp add: stub_handler_def)
  have start: "awaited ?s = []"
    by (simp add: registered_def init_server_def add_tool_handler_def)
  show ?thesis
    using dispatch_awaits_at_most_one [where arguments = "PStr ''Paris''" and name = "''get_time''"
        and w = "()" and s = ?s]
      dispatch_awaits_at_most_one [where arguments = "PDict []" and name = "''get_tides''"
        and w = "()" and s = ?s]
      dispatch_awaits_at_most_one [where arguments = "PDict []" and name = "''get_time''"
        and w = "()" and s = ?s and h = ?t and s' = "registered [?t]"]
      absent found alone outcome start
    by simp
qed




section \<open>Listing\<close>

lemma keys_registered:
  "dict_keys (tool_handlers (registered hs)) = rev (remdups (rev (map handler_name hs)))"
proof (induction hs rule: rev_induct)
  case Nil
  show ?case by (simp add: registered_Nil init_server_def dict_keys_def)
next
  case (snoc h hs)
  have "set (dict_keys (tool_handlers (registered hs))) = set (map handler_name hs)"
    by (simp add: snoc)
  then show ?case
    using snoc by (simp add: registered_snoc keys_add)
qed

lemma set_dict_set: "set (dict_set k v d) \<subseteq> insert (k, v) (set d)"
  by (induction d) (auto split: if_splits)

lemma entries_named:
  "(k, h) \<in> set (tool_handlers (registered hs)) \<Longrightarrow> handler_name h = k"
proof (induction hs rule: rev_induct)
  case Nil
  then show ?case by (simp add: registered_Nil init_server_def)
next
  case (snoc h' hs)
  from snoc.prems have "(k, h) \<in> insert (handler_name h', h') (set (tool_handlers (registered hs)))"
    using set_dict_set [of "handler_name h'" h' "tool_handlers (registered hs)"]
    by (auto simp: registered_snoc add_tool_handler_def)
  with snoc.IH show ?case by auto
qed

lemma dict_get_entry: "distinct (map fst d) \<Longrightarrow> (k, v) \<in> set d \<Longrightarrow> dict_get d k = Some v"
  by (induction d) (auto simp: image_iff)

lemma dict_set_fresh: "k \<notin> set (map fst d) \<Longrightarrow> dict_set k v d = d @ [(k, v)]"
  by (induction d) auto

lemma registered_distinct:
  "distinct (map handler_name hs) \<Longrightarrow>
     tool_handlers (registered hs) = map (\<lambda>h. (handler_name h, h)) hs"
proof (induction hs rule: rev_induct)
  case Nil
  show ?case by (simp add: registered_Nil init_server_def)
next
  case (snoc h hs)
  then have eq: "tool_handlers (registered hs) = map (\<lambda>h. (handler_name h, h)) hs"
    and fresh: "handler_name h \<notin> set (map handler_name hs)"
    by simp_all
  from fresh have "handler_name h \<notin> set (map fst (tool_handlers (registered hs)))"
    by (simp add: eq image_iff)
  then show ?case
    by (simp add: registered_snoc add_tool_handler_def dict_set_fresh eq)
qed

lemma register_all_tools_registered:
  "register_all_tools cw wr wd cd tz ct init_server = registered [cw, wr, wd, cd, tz, ct]"
  by (simp add: register_all_tools_def registered_def)

lemma comprehension_all_return:
  "map f xs = map Inr ys \<Longrightarrow> comprehension f xs = Inr ys"
  by (induction xs arbitrary: ys) auto

lemma registry_values_named:
  assumes "\<And>k h. (k, h) \<in> set d \<Longrightarrow> handler_name h = k"
  shows "map handler_name (dict_values d) = dict_keys d"
  using assms by (induction d) (auto simp: dict_values_def dict_keys_def)

text \<open>
  Claim C5. Let the registry of \<open>s\<close> be the one built by registering the handlers
  \<open>hs\<close> one after the other, and let every registered handler describe itself by a
  tool that carries the handler's declared name. Then \<open>list_tools\<close> returns, and what
  it returns is one descriptor for every entry of the registry, in the order of the
  entries; the names of the descriptors are the registered names, each once, in the
  order in which the names were first registered; every descriptor is the one of the
  handler that a lookup of its name returns; and when the handlers have pairwise
  different names, as the six of \<open>register_all_tools\<close> have, the listing is the
  descriptors of \<open>hs\<close> in registration order.
\<close>

theorem list_tools_one_per_handler:
  assumes registry: "tool_handlers s = tool_handlers (registered hs)"
    and described: "\<forall>h \<in> set (dict_values (tool_handlers s)).
                      \<exists>t. get_tool_description h = Inr t \<and> tool_name t = handler_name h"
  shows "\<exists>tools. fst (list_tools s) = Inr tools
           \<and> map Inr tools = map get_tool_description (dict_values (tool_handlers s))
           \<and> length tools = length (tool_handlers s)
           \<and> map tool_name tools = dict_keys (tool_handlers s)
           \<and> map tool_name tools = rev (remdups (rev (map handler_name hs)))
           \<and> distinct (map tool_name tools)
           \<and> (\<forall>t \<in> set tools.
                 \<exists>h. get_tool_handler (tool_name t) s = Some h \<and> get_tool_description h = Inr t)
           \<and> (distinct (map handler_name hs) \<longrightarrow>
                 map Inr tools = map get_tool_description hs)"
proof -
  let ?d = "tool_handlers s"
  let ?vs = "dict_values ?d"
  define tools where "tools = map (\<lambda>h. projr (get_tool_description h)) ?vs"
  have named: "\<And>k h. (k, h) \<in> set ?d \<Longrightarrow> handler_name h = k"
    using registry entries_named by metis
  have keys: "dict_keys ?d = rev (remdups (rev (map handler_name hs)))"
    using registry by (simp add: keys_registered)
  have dist: "distinct (map fst ?d)"
    using keys by (simp add: dict_keys_def)
  have descr: "get_tool_description h = Inr (projr (get_tool_description h))
               \<and> tool_name (projr (get_tool_description h)) = handler_name h"
    if "h \<in> set ?vs" for h
    using described that by fastforce
  have returned: "map Inr tools = map get_tool_description ?vs"
    unfolding tools_def using descr by simp
  then have "comprehension get_tool_description ?vs = Inr tools"
    by (simp only: comprehension_all_return)
  then have result: "fst (list_tools s) = Inr tools"
    by (simp add: list_tools_def)
  have "map tool_name tools = map handler_name ?vs"
    unfolding tools_def using descr by simp
  also have "\<dots> = dict_keys ?d"
    by (rule registry_values_named) (rule named)
  finally have names: "map tool_name tools = dict_keys ?d" .
  have each: "\<exists>h. get_tool_handler (tool_name t) s = Some h \<and> get_tool_description h = Inr t"
    if "t \<in> set tools" for t
  proof -
    from that obtain k h where entry: "(k, h) \<in> set ?d" and t: "t = projr (get_tool_description h)"
      by (auto simp: tools_def dict_values_def)
    from entry have "h \<in> set ?vs"
      by (force simp: dict_values_def)
    then have d: "get_tool_description h = Inr t" and n: "tool_name t = handler_name h"
      using descr t by simp_all
    from entry have "handler_name h = k" by (rule named)
    with dist entry n have "get_tool_handler (tool_name t) s = Some h"
      by (simp add: get_tool_handler_def dict_get_entry)
    with d show ?thesis by blast
  qed
  have all: "map Inr tools = map get_tool_description hs" if "distinct (map handler_name hs)"
    using returned registry registered_distinct [OF that]
    by (simp add: dict_values_def comp_def)
  have "length tools = length ?d"
    by (simp add: tools_def dict_values_def)
  moreover have "distinct (map tool_name tools)"
    using names dist by (simp add: dict_keys_def)
  ultimately show ?thesis
    using result returned names keys each all by auto
qed

theorem list_tools_one_per_handler_witness:
  "tool_handlers
      (register_all_tools
        (stub_handler ''get_current_weather'' ''cw'' (Inr []))
        (stub_handler ''get_weather_by_date_range'' ''wr'' (Inr []))
        (stub_handler ''get_weather_details'' ''wd'' (Inr []))
        (stub_handler ''get_current_datetime'' ''cd'' (Inr []))
        (stub_handler ''get_timezone_info'' ''tz'' (Inr []))
        (stub_handler ''convert_time'' ''ct'' (Inr []))
        (init_server :: unit server))
     = tool_handlers
      (registered
        [stub_handler ''get_current_weather'' ''cw'' (Inr []),
         stub_handler ''get_weather_by_date_range'' ''wr'' (Inr []),
         stub_handler ''get_weather_details'' ''wd'' (Inr []),
         stub_handler ''get_current_datetime'' ''cd'' (Inr []),
         stub_handler ''get_timezone_info'' ''tz'' (Inr []),
         stub_handler ''convert_time'' ''ct'' (Inr [])])
   \<and> distinct (map handler_name
        [stub_handler ''get_current_weather'' ''cw'' (Inr []),
         stub_handler ''get_weather_by_date_range'' ''wr'' (Inr []),
         stub_handler ''get_weather_details'' ''wd'' (Inr []),
         stub_handler ''get_current_datetime'' ''cd'' (Inr []),
         stub_handler ''get_timezone_info'' ''tz'' (Inr []),
         stub_handler ''convert_time'' ''ct'' (Inr []) :: unit handler])
   \<and> fst (list_tools
      (register_all_tools
        (stub_handler ''get_current_weather'' ''cw'' (Inr []))
        (stub_handler ''get_weather_by_date_range'' ''wr'' (Inr []))
        (stub_handler ''get_weather_details'' ''wd'' (Inr []))
        (stub_handler ''get_current_datetime'' ''cd'' (Inr []))
        (stub_handler ''get_timezone_info'' ''tz'' (Inr []))
        (stub_handler ''convert_time'' ''ct'' (Inr []))
        (init_server :: unit server)))
     = Inr
        [\<lparr>tool_name = ''get_current_weather'', tool_description = ''cw'', inputSchema = PDict []\<rparr>,
         \<lparr>tool_name = ''get_weather_by_date_range'', tool_description = ''wr'',
            inputSchema = PDict []\<rparr>,
         \<lparr>tool_name = ''get_weather_details'', tool_description = ''wd'', inputSchema = PDict []\<rparr>,
         \<lparr>tool_name = ''get_current_datetime'', tool_description = ''cd'', inputSchema = PDict []\<rparr>,
         \<lparr>tool_name = ''get_timezone_info'', tool_description = ''tz'', inputSchema = PDict []\<rparr>,
         \<lparr>tool_name = ''convert_time'', tool_description = ''ct'', inputSchema = PDict []\<rparr>]
   \<and> fst (list_tools
      (registered [stub_handler ''get_time'' ''first'' (Inr []),
                   stub_handler ''get_weather'' ''w'' (Inr []),
                   stub_handler ''get_time'' ''second'' (Inr []) :: unit handler]))
     = Inr
        [\<lparr>tool_name = ''get_time'', tool_description = ''second'', inputSchema = PDict []\<rparr>,
         \<lparr>tool_name = ''get_weather'', tool_description = ''w'', inputSchema = PDict []\<rparr>]"
proof -
  let ?cw = "stub_handler ''get_current_weather'' ''cw'' (Inr []) :: unit handler"
  let ?wr = "stub_handler ''get_weather_by_date_range'' ''wr'' (Inr []) :: unit handler"
  let ?wd = "stub_handler ''get_weather_details'' ''wd'' (Inr []) :: unit handler"
  let ?cd = "stub_handler ''get_current_datetime'' ''cd'' (Inr []) :: unit handler"
  let ?tz = "stub_handler ''get_timezone_info'' ''tz'' (Inr []) :: unit handler"
  let ?ct = "stub_handler ''convert_time'' ''ct'' (Inr []) :: unit handler"
  let ?six = "[?cw, ?wr, ?wd, ?cd, ?tz, ?ct]"
  let ?s = "register_all_tools ?cw ?wr ?wd ?cd ?tz ?ct init_server"
  let ?dup = "[stub_handler ''get_time'' ''first'' (Inr []),
               stub_handler ''get_weather'' ''w'' (Inr []),
               stub_handler ''get_time'' ''second'' (Inr []) :: unit handler]"
  have same: "tool_handlers ?s = tool_handlers (registered ?six)"
    by (simp only: register_all_tools_registered)
  have dist: "distinct (map handler_name ?six)"
    by (simp add: stub_handler_def)
  have six: "tool_handlers ?s = map (\<lambda>h. (handler_name h, h)) ?six"
    using same registered_distinct [OF dist] by simp
  have described: "\<forall>h \<in> set (dict_values (tool_handlers ?s)).
      \<exists>t. get_tool_description h = Inr t \<and> tool_name t = handler_name h"
    by (simp add: six dict_values_def) (simp add: stub_handler_def)
  have listing: "map Inr tools = map get_tool_description ?six \<Longrightarrow>
      tools = map (\<lambda>h. projr (get_tool_description h)) ?six" for tools :: "tool list"
    by (auto simp: stub_handler_def)
  have refl: "tool_handlers (registered ?dup) = tool_handlers (registered ?dup)"
    by simp
  have dup: "tool_handlers (registered ?dup) =
      [(''get_time'', stub_handler ''get_time'' ''second'' (Inr [])),
       (''get_weather'', stub_handler ''get_weather'' ''w'' (Inr []))]"
    by (simp add: registered_def init_server_def add_tool_handler_def stub_handler_def)
  have described_dup: "\<forall>h \<in> set (dict_values (tool_handlers (registered ?dup))).
      \<exists>t. get_tool_description h = Inr t \<and> tool_name t = handler_name h"
    by (simp add: dup dict_values_def) (simp add: stub_handler_def)
  from list_tools_one_per_handler [OF same described] dist
  obtain tools where res: "fst (list_tools ?s) = Inr tools"
    and all: "map Inr tools = map get_tool_description ?six"
    by blast
  from all have first: "fst (list_tools ?s) = Inr (map (\<lambda>h. projr (get_tool_description h)) ?six)"
    unfolding res by (auto simp: stub_handler_def)
  from list_tools_one_per_handler [OF refl described_dup]
  obtain tools' where res': "fst (list_tools (registered ?dup)) = Inr tools'"
    and all': "map Inr tools' = map get_tool_description (dict_values (tool_handlers (registered ?dup)))"
    by blast
  from all' [unfolded dup] have second: "fst (list_tools (registered ?dup)) =
      Inr [projr (get_tool_description (stub_handler ''get_time'' ''second'' (Inr []) :: unit handler)),
           projr (get_tool_description (stub_handler ''get_weather'' ''w'' (Inr []) :: unit handler))]"
    unfolding res' by (auto simp: dict_values_def stub_handler_def)
  show ?thesis
    using same dist first second by (simp add: stub_handler_def)
qed

section \<open>Resolving and looking up\<close>




lemma describe_code_known:
  "describe_code others 0 = ''Clear sky''" "describe_code others 1 = ''Mainly clear''"
  by (simp_all add: describe_code_def weather_descriptions_def)

lemma describe_code_unknown:
  "code \<notin> set (dict_keys (weather_descriptions others)) \<Longrightarrow> describe_code others code = ''Unknown''"
  by (simp add: describe_code_def dict_keys_def dict_get_None_iff [THEN iffD2])

lemma zip_readings_codes:
  "length temps = length ts \<Longrightarrow> length hums = length ts \<Longrightarrow> length dews = length ts \<Longrightarrow>
   length codes = length ts \<Longrightarrow>
     map weather_code (zip_readings others ts temps hums dews codes) = codes
     \<and> map timestamp (zip_readings others ts temps hums dews codes) = ts
     \<and> map weather_description (zip_readings others ts temps hums dews codes) =
         map (describe_code others) codes"
proof (induction ts arbitrary: temps hums dews codes)
  case Nil
  then show ?case by simp
next
  case (Cons t ts)
  then obtain temp temps' hum hums' dew dews' code codes'
    where "temps = temp # temps'" "hums = hum # hums'" "dews = dew # dews'" "codes = code # codes'"
    by (metis length_Suc_conv)
  with Cons show ?case by simp
qed

lemma zip_readings_described:
  "x \<in> set (zip_readings others ts temps hums dews codes) \<Longrightarrow>
     weather_description x = describe_code others (weather_code x)"
  by (induction others ts temps hums dews codes rule: zip_readings.induct) auto

lemma fetch_well_shaped:
  assumes "hourly_time body = Some ts" "hourly_temperature_2m body = Some temps"
    "hourly_relative_humidity_2m body = Some hums" "hourly_dew_point_2m body = Some dews"
    "hourly_weather_code body = Some codes"
    "length temps = length ts" "length hums = length ts" "length dews = length ts"
    "length codes = length ts"
  shows "fetch wording others (Success body) = Inr (zip_readings others ts temps hums dews codes)"
  using assms by (simp add: fetch_def)

lemma fetch_produces_zip:
  assumes "fetch wording others r = Inr readings"
  obtains ts temps hums dews codes where "readings = zip_readings others ts temps hums dews codes"
  using assms
  by (auto simp: fetch_def signal_def split: reply.splits option.splits if_splits)

text \<open>
  Claim C9. Every reading that the Weather Lookup produces carries as its description the
  translation of its weather code by the static table; the table translates code 0 to
  "Clear sky" and code 1 to "Mainly clear", and a code that is not in the table to the
  generic "Unknown". The translation never makes the lookup fail: for every body with
  the five arrays present and of one length, whatever the codes, the lookup returns the
  readings, one per index, with the codes in the provider's order.
\<close>

theorem weather_description_from_table:
  "(fetch wording others r = Inr readings \<longrightarrow>
      (\<forall>x \<in> set readings. weather_description x = describe_code others (weather_code x)))
   \<and> describe_code others 0 = ''Clear sky''
   \<and> describe_code others 1 = ''Mainly clear''
   \<and> (code \<notin> set (dict_keys (weather_descriptions others)) \<longrightarrow>
        describe_code others code = ''Unknown'')
   \<and> (hourly_time body = Some ts \<and> hourly_temperature_2m body = Some temps
        \<and> hourly_relative_humidity_2m body = Some hums \<and> hourly_dew_point_2m body = Some dews
        \<and> hourly_weather_code body = Some codes
        \<and> length temps = length ts \<and> length hums = length ts \<and> length dews = length ts
        \<and> length codes = length ts \<longrightarrow>
      (\<exists>produced. fetch wording others (Success body) = Inr produced
         \<and> map weather_code produced = codes
         \<and> map weather_description produced = map (describe_code others) codes))"
proof -
  have produced: "\<forall>x \<in> set readings. weather_description x = describe_code others (weather_code x)"
    if "fetch wording others r = Inr readings"
  proof -
    from that obtain ts temps hums dews codes
      where "readings = zip_readings others ts temps hums dews codes"
      by (rule fetch_produces_zip)
    then show ?thesis by (simp add: zip_readings_described)
  qed
  have shaped: "\<exists>produced. fetch wording others (Success body) = Inr produced
         \<and> map weather_code produced = codes
         \<and> map weather_description produced = map (describe_code others) codes"
    if "hourly_time body = Some ts" "hourly_temperature_2m body = Some temps"
      "hourly_relative_humidity_2m body = Some hums" "hourly_dew_point_2m body = Some dews"
      "hourly_weather_code body = Some codes"
      "length temps = length ts" "length hums = length ts" "length dews = length ts"
      "length codes = length ts"
    using fetch_well_shaped [OF that, of wording others] zip_readings_codes [OF that(6-9), of others]
    by simp
  show ?thesis
    using produced shaped describe_code_known [of others] describe_code_unknown [of code others]
    by blast
qed

theorem weather_description_from_table_witness:
  "fetch plain_wording [] mock_weather_response =
     Inr [\<lparr>timestamp = ''2024-01-01T12:00'', temperature_celsius = PFloat 200 (- 1),
           relative_humidity_percent = PInt 65, dew_point_celsius = PFloat 130 (- 1),
           weather_code = 0, weather_description = ''Clear sky''\<rparr>,
          \<lparr>timestamp = ''2024-01-01T13:00'', temperature_celsius = PFloat 210 (- 1),
           relative_humidity_percent = PInt 66, dew_point_celsius = PFloat 140 (- 1),
           weather_code = 1, weather_description = ''Mainly clear''\<rparr>]
   \<and> 99 \<notin> set (dict_keys (weather_descriptions []))
   \<and> describe_code [] 99 = ''Unknown''
   \<and> fetch plain_wording []
        (Success \<lparr>hourly_time = Some [''2024-01-01T12:00''],
           hourly_temperature_2m = Some [PFloat 200 (- 1)],
           hourly_relative_humidity_2m = Some [PInt 65],
           hourly_dew_point_2m = Some [PFloat 130 (- 1)],
           hourly_weather_code = Some [99]\<rparr>) =
     Inr [\<lparr>timestamp = ''2024-01-01T12:00'', temperature_celsius = PFloat 200 (- 1),
           relative_humidity_percent = PInt 65, dew_point_celsius = PFloat 130 (- 1),
           weather_code = 99, weather_description = ''Unknown''\<rparr>]"
proof -
  let ?r1 = "\<lparr>timestamp = ''2024-01-01T12:00'', temperature_celsius = PFloat 200 (- 1),
           relative_humidity_percent = PInt 65, dew_point_celsius = PFloat 130 (- 1),
           weather_code = 0, weather_description = ''Clear sky''\<rparr>"
  let ?r2 = "\<lparr>timestamp = ''2024-01-01T13:00'', temperature_celsius = PFloat 210 (- 1),
           relative_humidity_percent = PInt 66, dew_point_celsius = PFloat 140 (- 1),
           weather_code = 1, weather_description = ''Mainly clear''\<rparr>"
  let ?body = "\<lparr>hourly_time = Some [''2024-01-01T12:00''],
           hourly_temperature_2m = Some [PFloat 200 (- 1)],
           hourly_relative_humidity_2m = Some [PInt 65],
           hourly_dew_point_2m = Some [PFloat 130 (- 1)],
           hourly_weather_code = Some [99]\<rparr>"
  have table: "describe_code [] 0 = ''Clear sky''" "describe_code [] 1 = ''Mainly clear''"
    "describe_code [] 99 = ''Unknown''"
    by (simp_all add: describe_code_def weather_descriptions_def)
  have mock: "fetch plain_wording [] mock_weather_response = Inr [?r1, ?r2]"
    by (simp add: fetch_def mock_weather_response_def table)
  have absent: "99 \<notin> set (dict_keys (weather_descriptions []))"
    by (simp add: dict_keys_def weather_descriptions_def)
  have unknown: "fetch plain_wording [] (Success ?body) =
      Inr [\<lparr>timestamp = ''2024-01-01T12:00'', temperature_celsius = PFloat 200 (- 1),
           relative_humidity_percent = PInt 65, dew_point_celsius = PFloat 130 (- 1),
           weather_code = 99, weather_description = ''Unknown''\<rparr>]"
    by (simp add: fetch_def table)
  show ?thesis
    using weather_description_from_table [where wording = plain_wording and others = "[]"
        and r = mock_weather_response and readings = "[?r1, ?r2]" and code = 99
        and body = ?body and ts = "[''2024-01-01T12:00'']" and temps = "[PFloat 200 (- 1)]"
        and hums = "[PInt 65]" and dews = "[PFloat 130 (- 1)]" and codes = "[99]"]
      mock absent unknown table
    by simp
qed

end
